theory Spec2Isabelle
  imports Complex_Main
begin

section \<open>Python values used by \<^verbatim>\<open>app.py\<close>\<close>

subsection \<open>Exceptions\<close>

text \<open>
  What the remote client library raised: whether its class derives from
  \<^verbatim>\<open>Exception\<close> (\<^verbatim>\<open>KeyboardInterrupt\<close>, \<^verbatim>\<open>SystemExit\<close> and
  \<^verbatim>\<open>GeneratorExit\<close> do not), and what \<^verbatim>\<open>str(e)\<close> gives.
\<close>

record remote_exc =
  derives_Exception :: bool
  exc_str :: string

text \<open>
  The exceptions of the built-in operations the program uses carry no message in the
  model: the program never reads one (\<^verbatim>\<open>calculate_bmi\<close> has a bare
  \<^verbatim>\<open>except:\<close>).
\<close>

datatype py_exc =
    ValueError
  | ZeroDivisionError
  | OverflowError
  | KeyError string
  | Remote remote_exc

text \<open>Sequencing of statements that may raise: the first exception ends the block.\<close>

definition and_then :: "py_exc + 'a \<Rightarrow> ('a \<Rightarrow> py_exc + 'b) \<Rightarrow> py_exc + 'b" where
  "and_then r f = (case r of Inl e \<Rightarrow> Inl e | Inr v \<Rightarrow> f v)"

subsection \<open>Floats\<close>

text \<open>
  A Python float is an IEEE 754 binary64 value: a finite double is the rational number it
  denotes, and there are the two infinities and NaN. The sign of a zero is not kept: no
  operation of this program tells \<^verbatim>\<open>0.0\<close> from \<^verbatim>\<open>-0.0\<close> (both are
  falsy, both compare equal, dividing by either raises).
\<close>

datatype pyfloat = Fin rat | PInf | NInf | NaN

text \<open>The number of binary digits of a positive integer (\<^verbatim>\<open>int.bit_length\<close>).\<close>

function bit_length :: "int \<Rightarrow> int" where
  "bit_length n = (if n \<le> 0 then 0 else 1 + bit_length (n div 2))"
  by pat_completeness auto
termination
  by (relation "measure nat") auto

declare bit_length.simps [simp del]

definition pow10 :: "int \<Rightarrow> rat" where
  "pow10 k = (if 0 \<le> k then 10 ^ nat k else 1 / 10 ^ nat (- k))"

definition pow2 :: "int \<Rightarrow> rat" where
  "pow2 k = (if 0 \<le> k then 2 ^ nat k else 1 / 2 ^ nat (- k))"

text \<open>For \<open>0 < a\<close>, the integer \<open>k\<close> with \<open>2\<^sup>k \<le> a < 2\<^sup>k\<^sup>+\<^sup>1\<close>.\<close>

definition floor_log2 :: "rat \<Rightarrow> int" where
  "floor_log2 a =
     (if 1 \<le> a then bit_length \<lfloor>a\<rfloor> - 1
      else - bit_length (\<lceil>1 / a\<rceil> - 1))"

definition round_half_even :: "rat \<Rightarrow> int" where
  "round_half_even x =
     (if x - of_int \<lfloor>x\<rfloor> < 1 / 2 then \<lfloor>x\<rfloor>
      else if 1 / 2 < x - of_int \<lfloor>x\<rfloor> then \<lfloor>x\<rfloor> + 1
      else if even \<lfloor>x\<rfloor> then \<lfloor>x\<rfloor> else \<lfloor>x\<rfloor> + 1)"

text \<open>
  The exponent of the last mantissa bit of the double nearest to \<open>a\<close>: 53 significant
  bits, and never below \<open>2\<^sup>-\<^sup>1\<^sup>0\<^sup>7\<^sup>4\<close> (the subnormal range).
\<close>

definition ulp_exponent :: "rat \<Rightarrow> int" where
  "ulp_exponent a = max (floor_log2 a - 52) (- 1074)"

definition round_to_ulp :: "rat \<Rightarrow> rat" where
  "round_to_ulp a =
     of_int (round_half_even (a / pow2 (ulp_exponent a))) * pow2 (ulp_exponent a)"

text \<open>
  Round to nearest, ties to even, as IEEE 754 does for every arithmetic result and as
  the conversion of a decimal numeral does; a magnitude that rounds to \<open>2\<^sup>1\<^sup>0\<^sup>2\<^sup>4\<close> or
  more overflows to an infinity.
\<close>

definition round_double :: "rat \<Rightarrow> pyfloat" where
  "round_double q =
     (if q = 0 then Fin 0
      else if pow2 1024 \<le> round_to_ulp \<bar>q\<bar> then (if 0 < q then PInf else NInf)
      else Fin (if 0 < q then round_to_ulp \<bar>q\<bar> else - round_to_ulp \<bar>q\<bar>))"

text \<open>
  A float literal of the source, given by its digits and its decimal exponent:
  \<^verbatim>\<open>18.5\<close> is \<open>float_lit 185 (- 1)\<close>.
\<close>

definition float_lit :: "int \<Rightarrow> int \<Rightarrow> pyfloat" where
  "float_lit m e = round_double (of_int m * pow10 e)"

text \<open>\<^verbatim>\<open>x < y\<close> and \<^verbatim>\<open>x <= y\<close> on floats: false whenever an operand is NaN.\<close>

fun float_lt :: "pyfloat \<Rightarrow> pyfloat \<Rightarrow> bool" where
  "float_lt NaN y = False"
| "float_lt x NaN = False"
| "float_lt (Fin a) (Fin b) = (a < b)"
| "float_lt (Fin a) PInf = True"
| "float_lt (Fin a) NInf = False"
| "float_lt NInf NInf = False"
| "float_lt NInf y = True"
| "float_lt PInf y = False"

fun float_le :: "pyfloat \<Rightarrow> pyfloat \<Rightarrow> bool" where
  "float_le NaN y = False"
| "float_le x NaN = False"
| "float_le (Fin a) (Fin b) = (a \<le> b)"
| "float_le (Fin a) PInf = True"
| "float_le (Fin a) NInf = False"
| "float_le NInf y = True"
| "float_le PInf PInf = True"
| "float_le PInf y = False"

text \<open>Truthiness of a float (\<^verbatim>\<open>if bmi:\<close>): every float but zero, NaN included.\<close>

fun float_truthy :: "pyfloat \<Rightarrow> bool" where
  "float_truthy (Fin a) = (a \<noteq> 0)"
| "float_truthy x = True"

text \<open>
  \<^verbatim>\<open>x / y\<close>: CPython raises \<^verbatim>\<open>ZeroDivisionError\<close> on a zero divisor and otherwise
  divides as IEEE 754 does, without any overflow check.
\<close>

fun float_div :: "pyfloat \<Rightarrow> pyfloat \<Rightarrow> py_exc + pyfloat" where
  "float_div x (Fin b) =
     (if b = 0 then Inl ZeroDivisionError
      else case x of
          Fin a \<Rightarrow> Inr (round_double (a / b))
        | PInf \<Rightarrow> Inr (if 0 < b then PInf else NInf)
        | NInf \<Rightarrow> Inr (if 0 < b then NInf else PInf)
        | NaN \<Rightarrow> Inr NaN)"
| "float_div (Fin a) PInf = Inr (Fin 0)"
| "float_div (Fin a) NInf = Inr (Fin 0)"
| "float_div x y = Inr NaN"

text \<open>
  \<^verbatim>\<open>x ** 2\<close>, as CPython's \<^verbatim>\<open>float_pow\<close> does it for the exponent \<^verbatim>\<open>2.0\<close>.
  NaN stays NaN, an infinity gives \<^verbatim>\<open>inf\<close>, a zero gives \<^verbatim>\<open>0.0\<close> and
  \<^verbatim>\<open>1.0\<close> or \<^verbatim>\<open>-1.0\<close> gives \<^verbatim>\<open>1.0\<close>, all without the C library. Any other
  \<open>x\<close> goes, as \<open>\<bar>x\<bar>\<close>, to the platform's \<^verbatim>\<open>pow(\<bar>x\<bar>, 2.0)\<close>. The C library does
  not promise a correctly rounded result, so what \<^verbatim>\<open>pow\<close> returns and what it leaves
  in \<^verbatim>\<open>errno\<close> is a parameter of the model (\<open>EDOM\<close> stands for every error code
  other than \<open>ERANGE\<close>). CPython then counts an infinite result as a range error, drops a
  range error whose result is zero, and raises \<^verbatim>\<open>OverflowError\<close> for a range error
  and \<^verbatim>\<open>ValueError\<close> for any other.
\<close>

datatype c_errno = NoError | ERANGE | EDOM

type_synonym libm_pow = "rat \<Rightarrow> pyfloat \<times> c_errno"

definition adjust_erange :: "pyfloat \<Rightarrow> c_errno \<Rightarrow> c_errno" where
  "adjust_erange ix err =
     (if err = NoError then (if ix = PInf \<or> ix = NInf then ERANGE else NoError)
      else if err = ERANGE \<and> ix = Fin 0 then NoError
      else err)"

fun float_pow2 :: "libm_pow \<Rightarrow> pyfloat \<Rightarrow> py_exc + pyfloat" where
  "float_pow2 pw NaN = Inr NaN"
| "float_pow2 pw PInf = Inr PInf"
| "float_pow2 pw NInf = Inr PInf"
| "float_pow2 pw (Fin a) =
     (if a = 0 then Inr (Fin 0)
      else if \<bar>a\<bar> = 1 then Inr (Fin 1)
      else case adjust_erange (fst (pw \<bar>a\<bar>)) (snd (pw \<bar>a\<bar>)) of
          NoError \<Rightarrow> Inr (fst (pw \<bar>a\<bar>))
        | ERANGE \<Rightarrow> Inl OverflowError
        | EDOM \<Rightarrow> Inl ValueError)"

subsection \<open>Strings to numbers\<close>

text \<open>
  Strings are lists of 8-bit characters, read as the code points U+0000 to U+00FF.
  \<^verbatim>\<open>float(s)\<close> and \<^verbatim>\<open>int(s)\<close> strip the surrounding whitespace (the six
  ASCII blanks, and U+0085 and U+00A0, which CPython turns into spaces first), allow one
  underscore between two digits, and then read a sign and a decimal numeral
  (\<^verbatim>\<open>float\<close> also a fraction, an exponent, \<^verbatim>\<open>inf\<close>, \<^verbatim>\<open>infinity\<close> and
  \<^verbatim>\<open>nan\<close> in any letter case).
\<close>

definition py_isspace :: "char \<Rightarrow> bool" where
  "py_isspace c \<longleftrightarrow>
     c \<in> {CHR 0x09, CHR 0x0A, CHR 0x0B, CHR 0x0C, CHR 0x0D, CHR 0x20, CHR 0x85, CHR 0xA0}"

definition py_strip :: "string \<Rightarrow> string" where
  "py_strip s = rev (dropWhile py_isspace (rev (dropWhile py_isspace s)))"

definition is_digit :: "char \<Rightarrow> bool" where
  "is_digit c \<longleftrightarrow> c \<in> set ''0123456789''"

definition digit_val :: "char \<Rightarrow> int" where
  "digit_val c = of_char c - 48"

definition digits_val :: "string \<Rightarrow> int" where
  "digits_val ds = foldl (\<lambda>n c. 10 * n + digit_val c) 0 ds"

text \<open>An underscore must follow a digit and be followed by one.\<close>

fun underscores_ok :: "char \<Rightarrow> string \<Rightarrow> bool" where
  "underscores_ok prev [] = (prev \<noteq> CHR ''_'')"
| "underscores_ok prev (c # cs) =
     (if c = CHR ''_'' then is_digit prev \<and> underscores_ok c cs
      else if prev = CHR ''_'' then is_digit c \<and> underscores_ok c cs
      else underscores_ok c cs)"

definition ascii_lower :: "char \<Rightarrow> char" where
  "ascii_lower c =
     (if 65 \<le> (of_char c :: nat) \<and> (of_char c :: nat) \<le> 90 then char_of (of_char c + 32 :: nat)
      else c)"

fun split_sign :: "string \<Rightarrow> bool \<times> string" where
  "split_sign (c # cs) =
     (if c = CHR ''-'' then (True, cs) else if c = CHR ''+'' then (False, cs)
      else (False, c # cs))"
| "split_sign [] = (False, [])"

definition parse_exponent :: "string \<Rightarrow> int option" where
  "parse_exponent r =
     (if r = [] then Some 0
      else if hd r = CHR ''e'' \<or> hd r = CHR ''E'' then
        (case split_sign (tl r) of (neg, ds) \<Rightarrow>
           if ds \<noteq> [] \<and> list_all is_digit ds
           then Some (if neg then - digits_val ds else digits_val ds)
           else None)
      else None)"

definition fraction_part :: "string \<Rightarrow> string" where
  "fraction_part r =
     (if r \<noteq> [] \<and> hd r = CHR ''.'' then takeWhile is_digit (tl r) else [])"

definition after_fraction :: "string \<Rightarrow> string" where
  "after_fraction r =
     (if r \<noteq> [] \<and> hd r = CHR ''.'' then dropWhile is_digit (tl r) else r)"

definition parse_decimal :: "string \<Rightarrow> rat option" where
  "parse_decimal s =
     (if takeWhile is_digit s = [] \<and> fraction_part (dropWhile is_digit s) = [] then None
      else case parse_exponent (after_fraction (dropWhile is_digit s)) of
          None \<Rightarrow> None
        | Some ex \<Rightarrow>
            Some (of_int (digits_val (takeWhile is_digit s @ fraction_part (dropWhile is_digit s)))
                  * pow10 (ex - int (length (fraction_part (dropWhile is_digit s))))))"

definition parse_float :: "bool \<Rightarrow> string \<Rightarrow> py_exc + pyfloat" where
  "parse_float neg body =
     (if map ascii_lower body = ''inf'' \<or> map ascii_lower body = ''infinity''
      then Inr (if neg then NInf else PInf)
      else if map ascii_lower body = ''nan'' then Inr NaN
      else case parse_decimal body of
          None \<Rightarrow> Inl ValueError
        | Some q \<Rightarrow> Inr (round_double (if neg then - q else q)))"

definition py_float :: "string \<Rightarrow> py_exc + pyfloat" where
  "py_float s =
     (if \<not> underscores_ok (CHR 0x00) (py_strip s) then Inl ValueError
      else case split_sign (filter (\<lambda>c. c \<noteq> CHR ''_'') (py_strip s)) of
          (neg, body) \<Rightarrow> parse_float neg body)"

definition py_int :: "string \<Rightarrow> py_exc + int" where
  "py_int s =
     (if \<not> underscores_ok (CHR 0x00) (py_strip s) then Inl ValueError
      else case split_sign (filter (\<lambda>c. c \<noteq> CHR ''_'') (py_strip s)) of
          (neg, ds) \<Rightarrow>
            if ds \<noteq> [] \<and> list_all is_digit ds
            then Inr (if neg then - digits_val ds else digits_val ds)
            else Inl ValueError)"

section \<open>BMI\<close>

text \<open>
  \<^verbatim>\<open>
  def calculate_bmi(weight, height):
      try:
          weight_kg = float(weight)
          height_m = float(height) / 100
          bmi = weight_kg / (height_m ** 2)
          return bmi
      except:
          return None
  \<close>
  \<open>calculate_bmi_try\<close> is the body of the \<^verbatim>\<open>try\<close>; the bare \<^verbatim>\<open>except:\<close>
  turns whatever it raises into \<^verbatim>\<open>None\<close>. The first argument is the platform's
  \<^verbatim>\<open>pow\<close>. The result type has room for an exception
  that leaves the function, so that "never raises" is a statement and not a typing.
\<close>

definition calculate_bmi_try :: "libm_pow \<Rightarrow> string \<Rightarrow> string \<Rightarrow> py_exc + pyfloat" where
  "calculate_bmi_try pw weight height =
     and_then (py_float weight) (\<lambda>weight_kg.
     and_then (py_float height) (\<lambda>h.
     and_then (float_div h (Fin 100)) (\<lambda>height_m.
     and_then (float_pow2 pw height_m) (\<lambda>sq.
     float_div weight_kg sq))))"

definition calculate_bmi ::
  "libm_pow \<Rightarrow> string \<Rightarrow> string \<Rightarrow> py_exc + pyfloat option" where
  "calculate_bmi pw weight height =
     (case calculate_bmi_try pw weight height of
        Inr bmi \<Rightarrow> Inr (Some bmi)
      | Inl e \<Rightarrow> Inr None)"

text \<open>
  \<^verbatim>\<open>
  def categorize_bmi(bmi):
      if bmi < 18.5:
          return "Underweight", "blue", "Consider consulting with a healthcare provider about healthy weight gain."
      elif bmi < 24.9:
          return "Normal", "green", "Your weight is within a healthy range for your height."
      elif bmi < 29.9:
          return "Overweight", "orange", "Consider moderate lifestyle changes to achieve a healthier weight."
      else:
          return "Obesity", "red", "Consider consulting with a healthcare provider about weight management."
  \<close>
\<close>

definition categorize_bmi :: "pyfloat \<Rightarrow> string \<times> string \<times> string" where
  "categorize_bmi bmi =
     (if float_lt bmi (float_lit 185 (- 1)) then
        (''Underweight'', ''blue'',
         ''Consider consulting with a healthcare provider about healthy weight gain.'')
      else if float_lt bmi (float_lit 249 (- 1)) then
        (''Normal'', ''green'',
         ''Your weight is within a healthy range for your height.'')
      else if float_lt bmi (float_lit 299 (- 1)) then
        (''Overweight'', ''orange'',
         ''Consider moderate lifestyle changes to achieve a healthier weight.'')
      else
        (''Obesity'', ''red'',
         ''Consider consulting with a healthcare provider about weight management.''))"

section \<open>Recommendations\<close>

text \<open>
  A dict with string keys and string values. \<^verbatim>\<open>d.get(k, default)\<close> gives the default
  only when the key is absent; \<^verbatim>\<open>s or default\<close> on a string gives the default only
  when the string is empty.
\<close>

type_synonym py_dict = "string \<rightharpoonup> string"

definition dict_get :: "py_dict \<Rightarrow> string \<Rightarrow> string \<Rightarrow> string" where
  "dict_get d k dflt = (case d k of None \<Rightarrow> dflt | Some v \<Rightarrow> v)"

definition str_or :: "string \<Rightarrow> string \<Rightarrow> string" where
  "str_or s dflt = (if s \<noteq> [] then s else dflt)"

text \<open>The module constant \<^verbatim>\<open>prompt_template_resto\<close>, line by line.\<close>

definition prompt_template_resto :: string where
  "prompt_template_resto = concat
     [''\<newline>'',
      ''Diet Recommendation System:\<newline>'',
      ''Based on the following user profile, provide detailed, well-formatted recommendations:\<newline>'',
      ''\<newline>'',
      ''User Profile:\<newline>'',
      ''- Name: {name}\<newline>'',
      ''- Age: {age}\<newline>'',
      ''- Gender: {gender}\<newline>'',
      ''- Weight: {weight} kg\<newline>'',
      ''- Height: {height} cm\<newline>'',
      ''- Diet Preference: {veg_or_nonveg}\<newline>'',
      ''- Health Conditions: {disease}\<newline>'',
      ''- Region: {region}\<newline>'',
      ''- State: {state}\<newline>'',
      ''- Allergies: {allergics}\<newline>'',
      ''- Food Type Preference: {foodtype}\<newline>'',
      ''\<newline>'',
      ''Please provide recommendations in the following CLEARLY SEPARATED sections:\<newline>'',
      ''\<newline>'',
      ''## RESTAURANTS\<newline>'',
      ''Provide 6 restaurant names suitable for this person's diet and preferences. Include a brief description of each.\<newline>'',
      ''\<newline>'',
      ''## BREAKFAST IDEAS\<newline>'',
      ''Suggest 6 nutritious breakfast options tailored to their needs. Include ingredients and brief preparation notes.\<newline>'',
      ''\<newline>'',
      ''## DINNER IDEAS\<newline>'',
      ''Recommend 5 balanced dinner options appropriate for their diet. Include key ingredients.\<newline>'',
      ''\<newline>'',
      ''## WORKOUT RECOMMENDATIONS\<newline>'',
      ''Suggest 6 exercise activities suited to their profile. Include frequency and duration guidelines.\<newline>'',
      ''\<newline>'',
      ''## HEALTH NOTES\<newline>'',
      ''Provide 3-4 specific health tips based on their profile.\<newline>'',
      ''\<newline>'',
      ''Format each section with clear headings, bullet points, and concise descriptions.\<newline>'']"

text \<open>
  \<^verbatim>\<open>template.format(**inputs)\<close>, read from left to right. The first argument is the
  name of the replacement field being read, if any. A field is replaced by the value
  under its name, and a missing name raises \<^verbatim>\<open>KeyError\<close>; a brace that opens no
  field or closes none raises \<^verbatim>\<open>ValueError\<close>. The template has plain names only, so
  doubled braces, conversions and format specifications are not modelled.
\<close>

fun py_format :: "string option \<Rightarrow> string \<Rightarrow> py_dict \<Rightarrow> py_exc + string" where
  "py_format None [] d = Inr []"
| "py_format (Some k) [] d = Inl ValueError"
| "py_format None (c # cs) d =
     (if c = CHR ''{'' then py_format (Some []) cs d
      else if c = CHR ''}'' then Inl ValueError
      else and_then (py_format None cs d) (\<lambda>r. Inr (c # r)))"
| "py_format (Some k) (c # cs) d =
     (if c = CHR ''}'' then
        (case d k of
           None \<Rightarrow> Inl (KeyError k)
         | Some v \<Rightarrow> and_then (py_format None cs d) (\<lambda>r. Inr (v @ r)))
      else py_format (Some (k @ [c])) cs d)"

text \<open>
  The remote model: \<^verbatim>\<open>model.generate_content(prompt)\<close> returns a response or
  raises, and reading \<^verbatim>\<open>response.text\<close> gives the reply or raises.
\<close>

record response =
  response_text :: "remote_exc + string"

record remote_model =
  generate_content :: "string \<Rightarrow> remote_exc + response"

record usage_entry =
  timestamp :: nat
  user_age :: string
  user_region :: string

text \<open>What the Streamlit calls of the results column put on the page.\<close>

datatype render_item =
    ResultsContainerOpen
  | Greeting string
  | BmiContainer pyfloat string string string
  | TextContainerOpen
  | Markdown string
  | DivClose
  | VisualizationHeader
  | Scatter3d int pyfloat pyfloat string string
  | ErrorBox string

text \<open>
  The state the program acts on: \<^verbatim>\<open>st.session_state.usage_data\<close>, the prompts sent
  to the remote model so far, and the page rendered so far.
\<close>

record world =
  usage_data :: "usage_entry list"
  sent_prompts :: "string list"
  page :: "render_item list"

text \<open>
  \<^verbatim>\<open>
  def generate_recommendations(inputs):
      prompt = prompt_template_resto.format(**inputs)
      try:
          response = model.generate_content(prompt)
          return response.text
      except Exception as e:
          return f"Error generating recommendations: {str(e)}"
  \<close>
\<close>

definition generate_recommendations ::
  "remote_model \<Rightarrow> py_dict \<Rightarrow> world \<Rightarrow> (py_exc + string) \<times> world" where
  "generate_recommendations model inputs w =
     (case py_format None prompt_template_resto inputs of
        Inl e \<Rightarrow> (Inl e, w)
      | Inr prompt \<Rightarrow>
          (case (case generate_content model prompt of
                   Inl e \<Rightarrow> Inl e
                 | Inr response \<Rightarrow> response_text response) of
             Inr reply \<Rightarrow> Inr reply
           | Inl e \<Rightarrow>
               if derives_Exception e
               then Inr (''Error generating recommendations: '' @ exc_str e)
               else Inl (Remote e),
           w\<lparr>sent_prompts := sent_prompts w @ [prompt]\<rparr>))"

section \<open>Usage tracking\<close>

text \<open>
  \<^verbatim>\<open>
  def capture_usage(user_data):
      usage_entry = {
          'timestamp': datetime.now(),
          'user_age': user_data.get('age', 'Unknown'),
          'user_region': user_data.get('region', 'Unknown')
      }
      st.session_state.usage_data.append(usage_entry)
  \<close>
  The clock reading is an argument.
\<close>

definition capture_usage :: "nat \<Rightarrow> py_dict \<Rightarrow> world \<Rightarrow> world" where
  "capture_usage now user_data w =
     w\<lparr>usage_data := usage_data w @
          [\<lparr>timestamp = now,
            user_age = dict_get user_data ''age'' ''Unknown'',
            user_region = dict_get user_data ''region'' ''Unknown''\<rparr>]\<rparr>"

section \<open>The submit handler\<close>

text \<open>The values of the form widgets when the script runs.\<close>

record form =
  form_name :: string
  form_age :: string
  form_gender :: string
  form_weight :: string
  form_height :: string
  form_veg_or_nonveg :: string
  form_disease :: string
  form_region :: string
  form_state :: string
  form_allergics :: string
  form_foodtype :: string

text \<open>\<^verbatim>\<open>all([name, age, gender, weight, height, veg_or_nonveg])\<close>: a string is truthy when it is not empty.\<close>

definition required_present :: "form \<Rightarrow> bool" where
  "required_present f =
     list_all (\<lambda>s. s \<noteq> [])
       [form_name f, form_age f, form_gender f, form_weight f, form_height f,
        form_veg_or_nonveg f]"

definition input_data :: "form \<Rightarrow> py_dict" where
  "input_data f =
     [''name'' \<mapsto> form_name f, ''age'' \<mapsto> form_age f, ''gender'' \<mapsto> form_gender f,
      ''weight'' \<mapsto> form_weight f, ''height'' \<mapsto> form_height f,
      ''veg_or_nonveg'' \<mapsto> form_veg_or_nonveg f,
      ''disease'' \<mapsto> str_or (form_disease f) ''None'',
      ''region'' \<mapsto> str_or (form_region f) ''Not specified'',
      ''state'' \<mapsto> str_or (form_state f) ''Not specified'',
      ''allergics'' \<mapsto> str_or (form_allergics f) ''None'',
      ''foodtype'' \<mapsto> str_or (form_foodtype f) ''General'']"

definition render :: "render_item list \<Rightarrow> world \<Rightarrow> world" where
  "render items w = w\<lparr>page := page w @ items\<rparr>"

text \<open>
  The first \<^verbatim>\<open>if bmi:\<close> block, the BMI panel. \<^verbatim>\<open>None\<close> and a zero are
  falsy, every other float is truthy.
\<close>

definition bmi_panel :: "pyfloat option \<Rightarrow> render_item list" where
  "bmi_panel bmi =
     (case bmi of
        None \<Rightarrow> []
      | Some b \<Rightarrow>
          if float_truthy b
          then [BmiContainer b (fst (categorize_bmi b)) (fst (snd (categorize_bmi b)))
                  (snd (snd (categorize_bmi b)))]
          else [])"

text \<open>
  The second \<^verbatim>\<open>if bmi:\<close> block, the 3-D chart: \<^verbatim>\<open>int(age)\<close> and
  \<^verbatim>\<open>float(weight)\<close> are outside any \<^verbatim>\<open>try\<close>, so what they raise leaves the
  script. \<^verbatim>\<open>color\<close> and \<^verbatim>\<open>category\<close> are those of the first block.
\<close>

definition bmi_visualization ::
  "form \<Rightarrow> pyfloat option \<Rightarrow> world \<Rightarrow> py_exc option \<times> world" where
  "bmi_visualization f bmi w =
     (case bmi of
        None \<Rightarrow> (None, w)
      | Some b \<Rightarrow>
          if float_truthy b then
            (case py_int (form_age f) of
               Inl e \<Rightarrow> (Some e, render [VisualizationHeader] w)
             | Inr x \<Rightarrow>
                 (case py_float (form_weight f) of
                    Inl e \<Rightarrow> (Some e, render [VisualizationHeader] w)
                  | Inr y \<Rightarrow>
                      (None,
                       render [VisualizationHeader,
                               Scatter3d x y b (fst (snd (categorize_bmi b)))
                                 (fst (categorize_bmi b))] w)))
          else (None, w))"

text \<open>
  The block under \<^verbatim>\<open>with col2:\<close> (lines 251 to 318 of \<^verbatim>\<open>app.py\<close>). The result
  is the exception that ended the script there, if any, and the new state. The platform's
  \<^verbatim>\<open>pow\<close>, the remote model and the clock reading are arguments.
\<close>

definition results_column ::
  "libm_pow \<Rightarrow> remote_model \<Rightarrow> nat \<Rightarrow> bool \<Rightarrow> form \<Rightarrow> world \<Rightarrow> py_exc option \<times> world"
  where
  "results_column pw model now submit_button f w =
     (if \<not> submit_button then (None, w)
      else if required_present f then
        (case calculate_bmi pw (form_weight f) (form_height f) of
           Inl e \<Rightarrow> (Some e, capture_usage now (input_data f) w)
         | Inr bmi \<Rightarrow>
             (case generate_recommendations model (input_data f)
                     (capture_usage now (input_data f) w) of
                (Inl e, w2) \<Rightarrow> (Some e, w2)
              | (Inr recommendations, w2) \<Rightarrow>
                  bmi_visualization f bmi
                    (render
                       ([ResultsContainerOpen, Greeting (form_name f)] @ bmi_panel bmi @
                        [TextContainerOpen, Markdown recommendations, DivClose, DivClose])
                       w2)))
      else
        (None,
         render
           [ResultsContainerOpen,
            ErrorBox ''Please fill in all required fields to generate recommendations.'',
            DivClose] w))"

section \<open>The template as text and fields\<close>

text \<open>
  For the proofs: the template cut at its replacement fields, and the text it becomes
  once each field has a value. \<open>format_template\<close> below shows that
  \<open>py_format\<close> on the template of the source computes exactly this.
\<close>

datatype segment = Text string | Field string

fun unparse :: "segment list \<Rightarrow> string" where
  "unparse [] = []"
| "unparse (Text s # segs) = s @ unparse segs"
| "unparse (Field k # segs) = CHR ''{'' # k @ CHR ''}'' # unparse segs"

fun fill :: "segment list \<Rightarrow> py_dict \<Rightarrow> py_exc + string" where
  "fill [] d = Inr []"
| "fill (Text s # segs) d = and_then (fill segs d) (\<lambda>r. Inr (s @ r))"
| "fill (Field k # segs) d =
     (case d k of
        None \<Rightarrow> Inl (KeyError k)
      | Some v \<Rightarrow> and_then (fill segs d) (\<lambda>r. Inr (v @ r)))"

fun no_braces :: "segment \<Rightarrow> bool" where
  "no_braces (Text s) = (CHR ''{'' \<notin> set s \<and> CHR ''}'' \<notin> set s)"
| "no_braces (Field k) = (CHR ''}'' \<notin> set k)"

definition template_segments :: "segment list" where
  "template_segments =
     [Text (concat [''\<newline>'', ''Diet Recommendation System:\<newline>'', ''Based on the following user profile, provide detailed, well-formatted recommendations:\<newline>'', ''\<newline>'', ''User Profile:\<newline>'', ''- Name: '']),
      Field ''name'',
      Text (concat [''\<newline>'', ''- Age: '']),
      Field ''age'',
      Text (concat [''\<newline>'', ''- Gender: '']),
      Field ''gender'',
      Text (concat [''\<newline>'', ''- Weight: '']),
      Field ''weight'',
      Text (concat ['' kg\<newline>'', ''- Height: '']),
      Field ''height'',
      Text (concat ['' cm\<newline>'', ''- Diet Preference: '']),
      Field ''veg_or_nonveg'',
      Text (concat [''\<newline>'', ''- Health Conditions: '']),
      Field ''disease'',
      Text (concat [''\<newline>'', ''- Region: '']),
      Field ''region'',
      Text (concat [''\<newline>'', ''- State: '']),
      Field ''state'',
      Text (concat [''\<newline>'', ''- Allergies: '']),
      Field ''allergics'',
      Text (concat [''\<newline>'', ''- Food Type Preference: '']),
      Field ''foodtype'',
      Text (concat [''\<newline>'', ''\<newline>'', ''Please provide recommendations in the following CLEARLY SEPARATED sections:\<newline>'', ''\<newline>'', ''## RESTAURANTS\<newline>'', ''Provide 6 restaurant names suitable for this person's diet and preferences. Include a brief description of each.\<newline>'', ''\<newline>'', ''## BREAKFAST IDEAS\<newline>'', ''Suggest 6 nutritious breakfast options tailored to their needs. Include ingredients and brief preparation notes.\<newline>'', ''\<newline>'', ''## DINNER IDEAS\<newline>'', ''Recommend 5 balanced dinner options appropriate for their diet. Include key ingredients.\<newline>'', ''\<newline>'', ''## WORKOUT RECOMMENDATIONS\<newline>'', ''Suggest 6 exercise activities suited to their profile. Include frequency and duration guidelines.\<newline>'', ''\<newline>'', ''## HEALTH NOTES\<newline>'', ''Provide 3-4 specific health tips based on their profile.\<newline>'', ''\<newline>'', ''Format each section with clear headings, bullet points, and concise descriptions.\<newline>''])]"

definition filled_prompt ::
  "string \<Rightarrow> string \<Rightarrow> string \<Rightarrow> string \<Rightarrow> string \<Rightarrow> string \<Rightarrow> string \<Rightarrow> string \<Rightarrow> string \<Rightarrow>
   string \<Rightarrow> string \<Rightarrow> string" where
  "filled_prompt name_v age_v gender_v weight_v height_v veg_or_nonveg_v disease_v region_v
     state_v allergics_v foodtype_v = concat
     [''\<newline>'',
      ''Diet Recommendation System:\<newline>'',
      ''Based on the following user profile, provide detailed, well-formatted recommendations:\<newline>'',
      ''\<newline>'',
      ''User Profile:\<newline>'',
      ''- Name: '',
      name_v,
      ''\<newline>'',
      ''- Age: '',
      age_v,
      ''\<newline>'',
      ''- Gender: '',
      gender_v,
      ''\<newline>'',
      ''- Weight: '',
      weight_v,
      '' kg\<newline>'',
      ''- Height: '',
      height_v,
      '' cm\<newline>'',
      ''- Diet Preference: '',
      veg_or_nonveg_v,
      ''\<newline>'',
      ''- Health Conditions: '',
      disease_v,
      ''\<newline>'',
      ''- Region: '',
      region_v,
      ''\<newline>'',
      ''- State: '',
      state_v,
      ''\<newline>'',
      ''- Allergies: '',
      allergics_v,
      ''\<newline>'',
      ''- Food Type Preference: '',
      foodtype_v,
      ''\<newline>'',
      ''\<newline>'',
      ''Please provide recommendations in the following CLEARLY SEPARATED sections:\<newline>'',
      ''\<newline>'',
      ''## RESTAURANTS\<newline>'',
      ''Provide 6 restaurant names suitable for this person's diet and preferences. Include a brief description of each.\<newline>'',
      ''\<newline>'',
      ''## BREAKFAST IDEAS\<newline>'',
      ''Suggest 6 nutritious breakfast options tailored to their needs. Include ingredients and brief preparation notes.\<newline>'',
      ''\<newline>'',
      ''## DINNER IDEAS\<newline>'',
      ''Recommend 5 balanced dinner options appropriate for their diet. Include key ingredients.\<newline>'',
      ''\<newline>'',
      ''## WORKOUT RECOMMENDATIONS\<newline>'',
      ''Suggest 6 exercise activities suited to their profile. Include frequency and duration guidelines.\<newline>'',
      ''\<newline>'',
      ''## HEALTH NOTES\<newline>'',
      ''Provide 3-4 specific health tips based on their profile.\<newline>'',
      ''\<newline>'',
      ''Format each section with clear headings, bullet points, and concise descriptions.\<newline>'']"

section \<open>Sample inputs\<close>

text \<open>
  Concrete submissions, remote models and a fresh session, for the concrete checks, and a
  C library whose \<^verbatim>\<open>pow(x, 2.0)\<close> happens to round correctly.
\<close>

definition sample_pow :: libm_pow where
  "sample_pow = (\<lambda>a. (round_double (a * a), NoError))"

definition sample_form :: form where
  "sample_form =
     \<lparr>form_name = ''Ann'', form_age = ''30'', form_gender = ''Female'', form_weight = ''70'',
      form_height = ''175'', form_veg_or_nonveg = ''Vegan'', form_disease = [],
      form_region = [], form_state = [], form_allergics = [], form_foodtype = []\<rparr>"

definition fresh_world :: world where
  "fresh_world = \<lparr>usage_data = [], sent_prompts = [], page = []\<rparr>"

definition failing_model :: remote_model where
  "failing_model =
     \<lparr>generate_content =
        (\<lambda>prompt. Inl \<lparr>derives_Exception = True, exc_str = ''429 quota exceeded''\<rparr>)\<rparr>"

definition blocked_model :: remote_model where
  "blocked_model =
     \<lparr>generate_content =
        (\<lambda>prompt. Inr \<lparr>response_text =
           Inl \<lparr>derives_Exception = True, exc_str = ''response was blocked''\<rparr>\<rparr>)\<rparr>"

definition replying_model :: remote_model where
  "replying_model =
     \<lparr>generate_content = (\<lambda>prompt. Inr \<lparr>response_text = Inr ''## RESTAURANTS''\<rparr>)\<rparr>"

section \<open>Evaluation of the float model\<close>

lemma floor_rat_numeral_div [simp]:
  "\<lfloor>numeral a / numeral b :: rat\<rfloor> = numeral a div numeral b"
  by (metis floor_divide_of_int_eq of_int_numeral)

lemma ceiling_rat_numeral_div [simp]:
  "\<lceil>numeral a / numeral b :: rat\<rceil> = - (- numeral a div numeral b)"
  using ceiling_divide_eq_div [of "numeral a" "numeral b"] by simp

lemmas round_double_eval = round_double_def round_to_ulp_def ulp_exponent_def floor_log2_def
  pow2_def round_half_even_def bit_length.simps

lemmas py_float_eval = py_float_def py_strip_def py_isspace_def is_digit_def digit_val_def
  digits_val_def parse_float_def parse_decimal_def parse_exponent_def fraction_part_def
  after_fraction_def pow10_def ascii_lower_def

text \<open>The three thresholds as doubles: \<^verbatim>\<open>18.5\<close> is exact, the other two are not.\<close>

lemma lit_18_5: "float_lit 185 (- 1) = Fin (37 / 2)"
  by (simp add: float_lit_def pow10_def round_double_eval)

lemma lit_24_9: "float_lit 249 (- 1) = Fin (3504363460047667 / 140737488355328)"
  by (simp add: float_lit_def pow10_def round_double_eval)

lemma lit_29_9: "float_lit 299 (- 1) = Fin (4208050901824307 / 140737488355328)"
  by (simp add: float_lit_def pow10_def round_double_eval)

lemma lit_29_89: "float_lit 2989 (- 2) = Fin (2103321763470377 / 70368744177664)"
  by (simp add: float_lit_def pow10_def round_double_eval)

lemma py_float_70: "py_float ''70'' = Inr (Fin 70)"
  by (simp add: py_float_eval round_double_eval)

lemma py_float_175: "py_float ''175'' = Inr (Fin 175)"
  by (simp add: py_float_eval round_double_eval)

lemma py_float_0: "py_float ''0'' = Inr (Fin 0)"
  by (simp add: py_float_eval round_double_eval)

lemma py_float_abc: "py_float ''abc'' = Inl ValueError"
  by (simp add: py_float_eval round_double_eval)

lemma py_float_nan: "py_float ''nan'' = Inr NaN"
  by (simp add: py_float_eval)

lemma py_float_inf: "py_float ''inf'' = Inr PInf"
  by (simp add: py_float_eval)

lemma py_float_infinity: "py_float ''infinity'' = Inr PInf"
  by (simp add: py_float_eval)

lemma round_7_4: "round_double (7 / 4) = Fin (7 / 4)"
  by (simp add: round_double_eval)

lemma round_175_100: "round_double (175 / 100) = Fin (7 / 4)"
  by (simp add: round_7_4)

lemma sample_pow_7_4: "sample_pow (7 / 4) = (Fin (49 / 16), NoError)"
  by (simp add: sample_pow_def round_double_eval)

text \<open>What \<^verbatim>\<open>1.75 ** 2\<close> is, given what the platform's \<^verbatim>\<open>pow\<close> returns for it.\<close>

lemma float_pow2_7_4: "pw (7 / 4) = (Fin s, NoError) \<Longrightarrow> float_pow2 pw (Fin (7 / 4)) = Inr (Fin s)"
  by (simp add: adjust_erange_def)



lemma float_le_not_lt: "float_le x y \<Longrightarrow> \<not> float_lt y x"
  by (cases x; cases y) auto

lemma float_lt_le_trans: "float_lt x y \<Longrightarrow> float_le y z \<Longrightarrow> float_lt x z"
  by (cases x; cases y; cases z) auto

lemma lit_order:
  "float_lt (float_lit 185 (- 1)) (float_lit 249 (- 1))"
  "float_lt (float_lit 249 (- 1)) (float_lit 299 (- 1))"
  by (simp_all add: lit_18_5 lit_24_9 lit_29_9)




section \<open>The BMI functions\<close>

text \<open>
  C1: \<^verbatim>\<open>categorize_bmi\<close> sorts every float into one of four categories by a chain of
  strict comparisons: below 18.5 is Underweight, from 18.5 up to but not 24.9 is Normal,
  from 24.9 up to but not 29.9 is Overweight, from 29.9 on is Obesity. The thresholds are
  the doubles the literals of the source denote. Each threshold itself falls into the
  higher category, and \<^verbatim>\<open>29.89\<close> is Overweight.
\<close>

theorem categorize_bmi_partition:
  "(float_lt bmi (float_lit 185 (- 1)) \<longrightarrow> fst (categorize_bmi bmi) = ''Underweight'') \<and>
   (float_le (float_lit 185 (- 1)) bmi \<and> float_lt bmi (float_lit 249 (- 1)) \<longrightarrow>
      fst (categorize_bmi bmi) = ''Normal'') \<and>
   (float_le (float_lit 249 (- 1)) bmi \<and> float_lt bmi (float_lit 299 (- 1)) \<longrightarrow>
      fst (categorize_bmi bmi) = ''Overweight'') \<and>
   (float_le (float_lit 299 (- 1)) bmi \<longrightarrow> fst (categorize_bmi bmi) = ''Obesity'') \<and>
   fst (categorize_bmi bmi) \<in> {''Underweight'', ''Normal'', ''Overweight'', ''Obesity''} \<and>
   fst (categorize_bmi (float_lit 185 (- 1))) = ''Normal'' \<and>
   fst (categorize_bmi (float_lit 249 (- 1))) = ''Overweight'' \<and>
   fst (categorize_bmi (float_lit 299 (- 1))) = ''Obesity'' \<and>
   fst (categorize_bmi (float_lit 2989 (- 2))) = ''Overweight''"
proof -
  have under: "float_lt bmi (float_lit 185 (- 1)) \<Longrightarrow> fst (categorize_bmi bmi) = ''Underweight''"
    by (simp add: categorize_bmi_def)
  have normal: "fst (categorize_bmi bmi) = ''Normal''"
    if "float_le (float_lit 185 (- 1)) bmi" "float_lt bmi (float_lit 249 (- 1))"
    using that float_le_not_lt by (simp add: categorize_bmi_def)
  have over: "fst (categorize_bmi bmi) = ''Overweight''"
    if h: "float_le (float_lit 249 (- 1)) bmi" "float_lt bmi (float_lit 299 (- 1))"
  proof -
    have "float_lt (float_lit 185 (- 1)) bmi"
      using lit_order(1) h(1) by (rule float_lt_le_trans)
    then have "\<not> float_lt bmi (float_lit 185 (- 1))"
      by (cases bmi) (auto simp: lit_18_5)
    moreover have "\<not> float_lt bmi (float_lit 249 (- 1))"
      using h(1) by (rule float_le_not_lt)
    ultimately show ?thesis
      using h(2) by (simp add: categorize_bmi_def)
  qed
  have obese: "fst (categorize_bmi bmi) = ''Obesity''" if h: "float_le (float_lit 299 (- 1)) bmi"
  proof -
    have "float_lt (float_lit 249 (- 1)) bmi"
      using lit_order(2) h by (rule float_lt_le_trans)
    then have "\<not> float_lt bmi (float_lit 249 (- 1))" "\<not> float_lt bmi (float_lit 185 (- 1))"
      by (cases bmi; auto simp: lit_18_5 lit_24_9)+
    moreover have "\<not> float_lt bmi (float_lit 299 (- 1))"
      using h by (rule float_le_not_lt)
    ultimately show ?thesis
      by (simp add: categorize_bmi_def)
  qed
  have four: "fst (categorize_bmi bmi) \<in> {''Underweight'', ''Normal'', ''Overweight'', ''Obesity''}"
    by (simp add: categorize_bmi_def)
  have bounds: "fst (categorize_bmi (float_lit 185 (- 1))) = ''Normal''"
    "fst (categorize_bmi (float_lit 249 (- 1))) = ''Overweight''"
    "fst (categorize_bmi (float_lit 299 (- 1))) = ''Obesity''"
    "fst (categorize_bmi (float_lit 2989 (- 2))) = ''Overweight''"
    by (simp_all add: categorize_bmi_def lit_18_5 lit_24_9 lit_29_9 lit_29_89)
  show ?thesis
    using under normal over obese four bounds by blast
qed

text \<open>One float in each of the four ranges.\<close>

theorem categorize_bmi_partition_witness:
  "float_lt (Fin 17) (float_lit 185 (- 1)) \<and> fst (categorize_bmi (Fin 17)) = ''Underweight'' \<and>
   float_le (float_lit 185 (- 1)) (Fin 22) \<and> float_lt (Fin 22) (float_lit 249 (- 1)) \<and>
   fst (categorize_bmi (Fin 22)) = ''Normal'' \<and>
   float_le (float_lit 249 (- 1)) (Fin 27) \<and> float_lt (Fin 27) (float_lit 299 (- 1)) \<and>
   fst (categorize_bmi (Fin 27)) = ''Overweight'' \<and>
   float_le (float_lit 299 (- 1)) PInf \<and> fst (categorize_bmi PInf) = ''Obesity''"
  using categorize_bmi_partition [of "Fin 17"] categorize_bmi_partition [of "Fin 22"]
    categorize_bmi_partition [of "Fin 27"] categorize_bmi_partition [of PInf]
  by (simp add: lit_18_5 lit_24_9 lit_29_9)

text \<open>
  C5, as the specification words it, fails: the message for Underweight in the source
  reads "consulting with a healthcare provider", not "consulting a healthcare provider".
\<close>

theorem categorize_bmi_message_counterexample:
  "snd (snd (categorize_bmi (Fin 17))) \<noteq>
     ''Consider consulting a healthcare provider about healthy weight gain.''"
  by (simp add: categorize_bmi_def lit_18_5)

text \<open>
  C5, amended: \<^verbatim>\<open>categorize_bmi\<close> returns one of exactly four triples of category,
  colour and message; the messages for Underweight and Obesity say "consulting with a
  healthcare provider", those for Normal and Overweight are as the specification lists
  them.
\<close>

theorem categorize_bmi_messages:
  "categorize_bmi bmi \<in>
     {(''Underweight'', ''blue'',
       ''Consider consulting with a healthcare provider about healthy weight gain.''),
      (''Normal'', ''green'', ''Your weight is within a healthy range for your height.''),
      (''Overweight'', ''orange'',
       ''Consider moderate lifestyle changes to achieve a healthier weight.''),
      (''Obesity'', ''red'',
       ''Consider consulting with a healthcare provider about weight management.'')}"
  by (simp add: categorize_bmi_def)

lemma calculate_bmi_0:
  "calculate_bmi_try pw weight ''0'' =
     (case py_float weight of Inl e \<Rightarrow> Inl e | Inr w \<Rightarrow> Inl ZeroDivisionError)"
  by (simp add: calculate_bmi_try_def and_then_def py_float_0 round_double_def split: sum.splits)

lemma calculate_bmi_unparsed:
  "isl (py_float weight) \<or> isl (py_float height) \<Longrightarrow> calculate_bmi pw weight height = Inr None"
  by (auto simp: calculate_bmi_def calculate_bmi_try_def and_then_def isl_def split: sum.splits)

lemma calculate_bmi_returns: "\<exists>bmi. calculate_bmi pw weight height = Inr bmi"
  by (simp add: calculate_bmi_def split: sum.splits)



text \<open>
  C4, as the specification words it, fails: \<^verbatim>\<open>"nan"\<close> is not a number, but
  \<^verbatim>\<open>float\<close> accepts it, and \<^verbatim>\<open>calculate_bmi("nan", "175")\<close> is the float NaN, not
  \<^verbatim>\<open>None\<close>.
\<close>

theorem calculate_bmi_nan_counterexample:
  "calculate_bmi sample_pow ''nan'' ''175'' \<noteq> Inr None"
  by (simp add: calculate_bmi_def calculate_bmi_try_def and_then_def py_float_nan py_float_175
      round_7_4 adjust_erange_def sample_pow_7_4)

text \<open>
  C4, amended: when \<^verbatim>\<open>float\<close> rejects the weight or the height, as it does
  \<^verbatim>\<open>"abc"\<close>, \<^verbatim>\<open>calculate_bmi\<close> returns \<^verbatim>\<open>None\<close> and raises nothing. The
  spellings \<^verbatim>\<open>nan\<close>, \<^verbatim>\<open>inf\<close> and \<^verbatim>\<open>infinity\<close> are not rejected: they denote
  floats, and a weight \<^verbatim>\<open>"nan"\<close> gives the float NaN whenever the height gives a
  non-zero finite square.
\<close>

theorem calculate_bmi_non_numeric:
  "(isl (py_float weight) \<or> isl (py_float height) \<longrightarrow>
      calculate_bmi pw weight height = Inr None) \<and>
   py_float ''abc'' = Inl ValueError \<and>
   py_float ''nan'' = Inr NaN \<and> py_float ''inf'' = Inr PInf \<and>
   py_float ''infinity'' = Inr PInf \<and>
   (py_float height = Inr (Fin h) \<and> round_double (h / 100) = Fin m \<and>
    float_pow2 pw (Fin m) = Inr (Fin s) \<and> s \<noteq> 0 \<longrightarrow>
      calculate_bmi pw ''nan'' height = Inr (Some NaN))"
proof -
  have "calculate_bmi pw ''nan'' height = Inr (Some NaN)"
    if "py_float height = Inr (Fin h)" "round_double (h / 100) = Fin m"
      "float_pow2 pw (Fin m) = Inr (Fin s)" "s \<noteq> 0"
    using that by (simp add: calculate_bmi_def calculate_bmi_try_def and_then_def py_float_nan)
  then show ?thesis
    using calculate_bmi_unparsed [of weight height pw]
    by (simp add: py_float_abc py_float_nan py_float_inf py_float_infinity)
qed

theorem calculate_bmi_non_numeric_witness:
  "isl (py_float ''abc'') \<and> calculate_bmi sample_pow ''abc'' ''175'' = Inr None \<and>
   py_float ''175'' = Inr (Fin 175) \<and> round_double (175 / 100) = Fin (7 / 4) \<and>
   float_pow2 sample_pow (Fin (7 / 4)) = Inr (Fin (49 / 16)) \<and> (49 / 16 :: rat) \<noteq> 0 \<and>
   calculate_bmi sample_pow ''nan'' ''175'' = Inr (Some NaN)"
proof -
  have sq: "float_pow2 sample_pow (Fin (7 / 4)) = Inr (Fin (49 / 16))"
    using sample_pow_7_4 by (rule float_pow2_7_4)
  have "calculate_bmi sample_pow ''abc'' ''175'' = Inr None"
    using calculate_bmi_non_numeric [of "''abc''" "''175''" sample_pow] by (simp add: py_float_abc)
  moreover have "calculate_bmi sample_pow ''nan'' ''175'' = Inr (Some NaN)"
    using calculate_bmi_non_numeric [of _ "''175''" sample_pow 175 "7 / 4" "49 / 16"]
      py_float_175 round_175_100 sq by simp
  ultimately show ?thesis
    using sq py_float_175 round_175_100 by (simp add: py_float_abc)
qed

text \<open>
  C10: \<^verbatim>\<open>calculate_bmi\<close> returns for every pair of strings, a float or \<^verbatim>\<open>None\<close>,
  and never raises. With the height \<^verbatim>\<open>"0"\<close> and a weight that \<^verbatim>\<open>float\<close> accepts,
  the body raises \<^verbatim>\<open>ZeroDivisionError\<close>, which the bare \<^verbatim>\<open>except:\<close> turns into
  \<^verbatim>\<open>None\<close>: the same result as for a height that is not a number.
\<close>

theorem calculate_bmi_never_raises:
  "(\<exists>r. calculate_bmi pw weight height = Inr r) \<and>
   (py_float weight = Inr w \<longrightarrow> calculate_bmi_try pw weight ''0'' = Inl ZeroDivisionError) \<and>
   calculate_bmi pw weight ''0'' = Inr None \<and>
   calculate_bmi pw weight ''0'' = calculate_bmi pw weight ''abc''"
proof -
  have "\<exists>r. calculate_bmi pw weight height = Inr r"
    by (rule calculate_bmi_returns)
  moreover have "py_float weight = Inr w \<Longrightarrow> calculate_bmi_try pw weight ''0'' = Inl ZeroDivisionError"
    by (simp add: calculate_bmi_0)
  moreover have "calculate_bmi pw weight ''0'' = Inr None"
    by (simp add: calculate_bmi_def calculate_bmi_0 split: sum.splits)
  moreover have "calculate_bmi pw weight ''abc'' = Inr None"
    by (simp add: calculate_bmi_unparsed py_float_abc)
  ultimately show ?thesis
    by simp
qed

theorem calculate_bmi_never_raises_witness:
  "py_float ''70'' = Inr (Fin 70) \<and>
   calculate_bmi_try sample_pow ''70'' ''0'' = Inl ZeroDivisionError"
  using calculate_bmi_never_raises [of sample_pow "''70''" "''0''" "Fin 70"]
  by (simp add: py_float_70)

section \<open>The prompt\<close>

lemma and_then_Inr [simp]: "and_then (Inr v) f = f v"
  by (simp add: and_then_def)

lemma and_then_Inl [simp]: "and_then (Inl e) f = Inl e"
  by (simp add: and_then_def)

text \<open>Text without braces is copied; a field is looked up when its closing brace comes.\<close>

lemma py_format_text:
  "CHR ''{'' \<notin> set s \<Longrightarrow> CHR ''}'' \<notin> set s \<Longrightarrow>
   py_format None (s @ t) d = and_then (py_format None t d) (\<lambda>r. Inr (s @ r))"
  by (induction s) (auto simp: and_then_def split: sum.splits)

lemma py_format_field:
  "CHR ''}'' \<notin> set k \<Longrightarrow>
   py_format (Some k0) (k @ CHR ''}'' # t) d =
     (case d (k0 @ k) of
        None \<Rightarrow> Inl (KeyError (k0 @ k))
      | Some v \<Rightarrow> and_then (py_format None t d) (\<lambda>r. Inr (v @ r)))"
  by (induction k arbitrary: k0) (auto split: option.splits)

lemma py_format_unparse:
  "list_all no_braces segs \<Longrightarrow> py_format None (unparse segs) d = fill segs d"
proof (induction segs)
  case Nil
  then show ?case by simp
next
  case (Cons seg segs)
  show ?case
  proof (cases seg)
    case (Text s)
    with Cons show ?thesis by (simp add: py_format_text)
  next
    case (Field k)
    with Cons show ?thesis
      using py_format_field [of k "[]"] by (simp split: option.splits)
  qed
qed

lemma template_unparse: "prompt_template_resto = unparse template_segments"
  by (simp add: prompt_template_resto_def template_segments_def)

lemma template_no_braces: "list_all no_braces template_segments"
  by (simp add: template_segments_def)

lemma format_template: "py_format None prompt_template_resto d = fill template_segments d"
  by (simp add: template_unparse py_format_unparse template_no_braces)

lemma format_filled:
  assumes "d ''name'' = Some n" "d ''age'' = Some a" "d ''gender'' = Some g"
    "d ''weight'' = Some wt" "d ''height'' = Some ht" "d ''veg_or_nonveg'' = Some v"
    "d ''disease'' = Some dis" "d ''region'' = Some r" "d ''state'' = Some s"
    "d ''allergics'' = Some al" "d ''foodtype'' = Some ft"
  shows "py_format None prompt_template_resto d = Inr (filled_prompt n a g wt ht v dis r s al ft)"
  using assms by (simp add: format_template template_segments_def filled_prompt_def)

lemma format_input_data:
  "py_format None prompt_template_resto (input_data f) =
     Inr (filled_prompt (form_name f) (form_age f) (form_gender f) (form_weight f)
            (form_height f) (form_veg_or_nonveg f) (str_or (form_disease f) ''None'')
            (str_or (form_region f) ''Not specified'') (str_or (form_state f) ''Not specified'')
            (str_or (form_allergics f) ''None'') (str_or (form_foodtype f) ''General''))"
  by (rule format_filled) (simp_all add: input_data_def)

lemma sample_prompt:
  "py_format None prompt_template_resto (input_data sample_form) =
     Inr (filled_prompt ''Ann'' ''30'' ''Female'' ''70'' ''175'' ''Vegan'' ''None''
            ''Not specified'' ''Not specified'' ''None'' ''General'')"
  by (simp add: format_input_data sample_form_def str_or_def)

section \<open>The remote call\<close>

text \<open>
  C2: once the prompt is built, \<^verbatim>\<open>generate_recommendations\<close> raises nothing when the
  remote call fails with an exception (any class derived from \<^verbatim>\<open>Exception\<close>, raised by
  \<^verbatim>\<open>generate_content\<close> or by reading \<^verbatim>\<open>response.text\<close>): it returns
  \<^verbatim>\<open>"Error generating recommendations: "\<close> followed by \<^verbatim>\<open>str(e)\<close>. When the call
  succeeds it returns the reply text unchanged.
\<close>

theorem generate_recommendations_catches:
  assumes "py_format None prompt_template_resto inputs = Inr prompt"
  shows "(generate_content model prompt = Inl e \<and> derives_Exception e \<longrightarrow>
            fst (generate_recommendations model inputs w) =
              Inr (''Error generating recommendations: '' @ exc_str e)) \<and>
         (generate_content model prompt = Inr resp \<and> response_text resp = Inl e \<and>
          derives_Exception e \<longrightarrow>
            fst (generate_recommendations model inputs w) =
              Inr (''Error generating recommendations: '' @ exc_str e)) \<and>
         (generate_content model prompt = Inr resp \<and> response_text resp = Inr reply \<longrightarrow>
            fst (generate_recommendations model inputs w) = Inr reply)"
  using assms by (simp add: generate_recommendations_def)

theorem generate_recommendations_catches_witness:
  "py_format None prompt_template_resto (input_data sample_form) =
     Inr (filled_prompt ''Ann'' ''30'' ''Female'' ''70'' ''175'' ''Vegan'' ''None''
            ''Not specified'' ''Not specified'' ''None'' ''General'') \<and>
   fst (generate_recommendations failing_model (input_data sample_form) fresh_world) =
     Inr ''Error generating recommendations: 429 quota exceeded'' \<and>
   fst (generate_recommendations blocked_model (input_data sample_form) fresh_world) =
     Inr ''Error generating recommendations: response was blocked'' \<and>
   fst (generate_recommendations replying_model (input_data sample_form) fresh_world) =
     Inr ''## RESTAURANTS''"
  using generate_recommendations_catches [where model = failing_model and w = fresh_world
      and e = "\<lparr>derives_Exception = True, exc_str = ''429 quota exceeded''\<rparr>", OF sample_prompt]
    generate_recommendations_catches [where model = blocked_model and w = fresh_world
      and resp = "\<lparr>response_text =
         Inl \<lparr>derives_Exception = True, exc_str = ''response was blocked''\<rparr>\<rparr>"
      and e = "\<lparr>derives_Exception = True, exc_str = ''response was blocked''\<rparr>",
      OF sample_prompt]
    generate_recommendations_catches [where model = replying_model and w = fresh_world
      and resp = "\<lparr>response_text = Inr ''## RESTAURANTS''\<rparr>" and reply = "''## RESTAURANTS''",
      OF sample_prompt]
    sample_prompt
  by (simp add: failing_model_def blocked_model_def replying_model_def)

section \<open>The submit handler\<close>

lemma generate_recommendations_sent:
  "py_format None prompt_template_resto inputs = Inr prompt \<Longrightarrow>
   snd (generate_recommendations model inputs w) = w\<lparr>sent_prompts := sent_prompts w @ [prompt]\<rparr>"
  by (simp add: generate_recommendations_def)

lemma bmi_visualization_keeps:
  "usage_data (snd (bmi_visualization f bmi w)) = usage_data w \<and>
   sent_prompts (snd (bmi_visualization f bmi w)) = sent_prompts w \<and>
   set (page w) \<subseteq> set (page (snd (bmi_visualization f bmi w)))"
  by (auto simp: bmi_visualization_def render_def split: option.splits sum.splits)

lemma results_column_valid:
  assumes "required_present f"
  shows "usage_data (snd (results_column pw model now True f w)) =
           usage_data (capture_usage now (input_data f) w) \<and>
         sent_prompts (snd (results_column pw model now True f w)) =
           sent_prompts (snd (generate_recommendations model (input_data f)
              (capture_usage now (input_data f) w)))"
proof -
  obtain bmi where bmi: "calculate_bmi pw (form_weight f) (form_height f) = Inr bmi"
    using calculate_bmi_returns by blast
  obtain r w2 where g: "generate_recommendations model (input_data f)
      (capture_usage now (input_data f) w) = (r, w2)"
    by (cases "generate_recommendations model (input_data f) (capture_usage now (input_data f) w)")
  have w2: "w2 = (capture_usage now (input_data f) w)\<lparr>sent_prompts :=
      sent_prompts (capture_usage now (input_data f) w) @
        [filled_prompt (form_name f) (form_age f) (form_gender f) (form_weight f)
            (form_height f) (form_veg_or_nonveg f) (str_or (form_disease f) ''None'')
            (str_or (form_region f) ''Not specified'') (str_or (form_state f) ''Not specified'')
            (str_or (form_allergics f) ''None'') (str_or (form_foodtype f) ''General'')]\<rparr>"
    using generate_recommendations_sent [OF format_input_data, of model f "capture_usage now (input_data f) w"] g
    by simp
  show ?thesis
    using assms bmi g w2 bmi_visualization_keeps
    by (cases r) (simp_all add: results_column_def render_def)
qed

text \<open>
  C6: when the six required fields are filled in and the five optional ones are left
  empty, the dict built for the prompt holds \<^verbatim>\<open>"None"\<close> for the health conditions,
  \<^verbatim>\<open>"Not specified"\<close> for the region and for the state, \<^verbatim>\<open>"None"\<close> for the
  allergies and \<^verbatim>\<open>"General"\<close> for the cuisine; the template formatted with it is the
  template text with exactly these values in their five lines, and that is the one prompt
  the handler sends.
\<close>

theorem blank_optional_fields_get_defaults:
  assumes "required_present f" "form_disease f = []" "form_region f = []" "form_state f = []"
    "form_allergics f = []" "form_foodtype f = []"
  shows "input_data f ''disease'' = Some ''None'' \<and>
         input_data f ''region'' = Some ''Not specified'' \<and>
         input_data f ''state'' = Some ''Not specified'' \<and>
         input_data f ''allergics'' = Some ''None'' \<and>
         input_data f ''foodtype'' = Some ''General'' \<and>
         py_format None prompt_template_resto (input_data f) =
           Inr (filled_prompt (form_name f) (form_age f) (form_gender f) (form_weight f)
             (form_height f) (form_veg_or_nonveg f) ''None''
                  ''Not specified'' ''Not specified'' ''None'' ''General'') \<and>
         sent_prompts (snd (results_column pw model now True f w)) =
           sent_prompts w @
           [filled_prompt (form_name f) (form_age f) (form_gender f) (form_weight f)
             (form_height f) (form_veg_or_nonveg f) ''None''
              ''Not specified'' ''Not specified'' ''None'' ''General''] \<and>
         (\<exists>before after.
            filled_prompt (form_name f) (form_age f) (form_gender f) (form_weight f)
             (form_height f) (form_veg_or_nonveg f) ''None''
              ''Not specified'' ''Not specified'' ''None'' ''General'' =
            before @
            concat [''- Health Conditions: None\<newline>'',
                    ''- Region: Not specified\<newline>'',
                    ''- State: Not specified\<newline>'',
                    ''- Allergies: None\<newline>'',
                    ''- Food Type Preference: General\<newline>''] @
            after)"
proof -
  have dict: "input_data f ''disease'' = Some ''None''"
    "input_data f ''region'' = Some ''Not specified''"
    "input_data f ''state'' = Some ''Not specified''"
    "input_data f ''allergics'' = Some ''None''"
    "input_data f ''foodtype'' = Some ''General''"
    using assms by (simp_all add: input_data_def str_or_def)
  have prompt: "py_format None prompt_template_resto (input_data f) =
      Inr (filled_prompt (form_name f) (form_age f) (form_gender f) (form_weight f)
             (form_height f) (form_veg_or_nonveg f) ''None''
             ''Not specified'' ''Not specified'' ''None'' ''General'')"
    using assms by (simp add: format_input_data str_or_def)
  have sent: "sent_prompts (snd (results_column pw model now True f w)) =
      sent_prompts w @
      [filled_prompt (form_name f) (form_age f) (form_gender f) (form_weight f)
             (form_height f) (form_veg_or_nonveg f) ''None''
         ''Not specified'' ''Not specified'' ''None'' ''General'']"
    using results_column_valid [OF assms(1), of pw model now w]
      generate_recommendations_sent [OF prompt, of model "capture_usage now (input_data f) w"]
    by (simp add: capture_usage_def)
  have lines: "filled_prompt (form_name f) (form_age f) (form_gender f) (form_weight f)
             (form_height f) (form_veg_or_nonveg f) ''None''
        ''Not specified'' ''Not specified'' ''None'' ''General'' =
      concat [''\<newline>'', ''Diet Recommendation System:\<newline>'',
        ''Based on the following user profile, provide detailed, well-formatted recommendations:\<newline>'',
        ''\<newline>'', ''User Profile:\<newline>'', ''- Name: '', form_name f, ''\<newline>'',
        ''- Age: '', form_age f, ''\<newline>'', ''- Gender: '', form_gender f, ''\<newline>'',
        ''- Weight: '', form_weight f, '' kg\<newline>'', ''- Height: '', form_height f,
        '' cm\<newline>'', ''- Diet Preference: '', form_veg_or_nonveg f, ''\<newline>''] @
      concat [''- Health Conditions: None\<newline>'',
              ''- Region: Not specified\<newline>'',
              ''- State: Not specified\<newline>'',
              ''- Allergies: None\<newline>'',
              ''- Food Type Preference: General\<newline>''] @
      drop 289 (filled_prompt [] [] [] [] [] [] [] [] [] [] [])"
    by (simp add: filled_prompt_def)
  show ?thesis
    using dict prompt sent lines by blast
qed

theorem blank_optional_fields_get_defaults_witness:
  "required_present sample_form \<and> form_disease sample_form = [] \<and>
   form_region sample_form = [] \<and> form_state sample_form = [] \<and>
   form_allergics sample_form = [] \<and> form_foodtype sample_form = [] \<and>
   input_data sample_form ''disease'' = Some ''None'' \<and>
   sent_prompts (snd (results_column sample_pow replying_model 0 True sample_form fresh_world)) =
     [filled_prompt ''Ann'' ''30'' ''Female'' ''70'' ''175'' ''Vegan'' ''None''
        ''Not specified'' ''Not specified'' ''None'' ''General'']"
proof -
  have req: "required_present sample_form"
    by (simp add: required_present_def sample_form_def)
  have blank: "form_disease sample_form = []" "form_region sample_form = []"
    "form_state sample_form = []" "form_allergics sample_form = []"
    "form_foodtype sample_form = []"
    by (simp_all add: sample_form_def)
  have fields: "form_name sample_form = ''Ann''" "form_age sample_form = ''30''"
    "form_gender sample_form = ''Female''" "form_weight sample_form = ''70''"
    "form_height sample_form = ''175''" "form_veg_or_nonveg sample_form = ''Vegan''"
    by (simp_all add: sample_form_def)
  show ?thesis
    using blank_optional_fields_get_defaults [OF req blank, where model = replying_model
        and now = 0 and w = fresh_world and pw = sample_pow]
      req blank
    by (simp add: fields fresh_world_def)
qed

text \<open>
  C7: when a required field is empty, the handler only renders the validation error:
  no prompt is sent to the remote model and the usage log is unchanged.
\<close>

theorem missing_required_field_short_circuits:
  assumes "form_name f = [] \<or> form_age f = [] \<or> form_gender f = [] \<or> form_weight f = [] \<or>
           form_height f = [] \<or> form_veg_or_nonveg f = []"
  shows "results_column pw model now True f w =
           (None,
            w\<lparr>page := page w @
              [ResultsContainerOpen,
               ErrorBox ''Please fill in all required fields to generate recommendations.'',
               DivClose]\<rparr>) \<and>
         sent_prompts (snd (results_column pw model now True f w)) = sent_prompts w \<and>
         usage_data (snd (results_column pw model now True f w)) = usage_data w"
proof -
  have "\<not> required_present f"
    using assms by (auto simp: required_present_def)
  then show ?thesis
    by (simp add: results_column_def render_def)
qed

theorem missing_required_field_short_circuits_witness:
  "form_name (sample_form\<lparr>form_name := []\<rparr>) = [] \<and>
   sent_prompts (snd (results_column sample_pow replying_model 0 True (sample_form\<lparr>form_name := []\<rparr>)
     fresh_world)) = [] \<and>
   usage_data (snd (results_column sample_pow replying_model 0 True (sample_form\<lparr>form_name := []\<rparr>)
     fresh_world)) = []"
  using missing_required_field_short_circuits
    [where f = "sample_form\<lparr>form_name := []\<rparr>" and model = replying_model and now = 0
      and w = fresh_world and pw = sample_pow]
  by (simp add: fresh_world_def)

text \<open>
  C8: for a submission with all required fields, whose recommendation call returns a text:
  when \<^verbatim>\<open>float\<close> rejects the weight or the height, the page is the usual one without
  the BMI panel (and without the BMI chart); and whatever \<^verbatim>\<open>calculate_bmi\<close> gives,
  the handler sends the one prompt built from the fields of the form and renders the
  text \<^verbatim>\<open>generate_recommendations\<close> returned for it.
\<close>

theorem recommendations_independent_of_bmi:
  assumes "required_present f"
    and "generate_recommendations model (input_data f) (capture_usage now (input_data f) w) =
           (Inr recommendations, w2)"
  shows "(isl (py_float (form_weight f)) \<or> isl (py_float (form_height f)) \<longrightarrow>
            results_column pw model now True f w =
              (None,
               w2\<lparr>page := page w2 @
                 [ResultsContainerOpen, Greeting (form_name f), TextContainerOpen,
                  Markdown recommendations, DivClose, DivClose]\<rparr>)) \<and>
         sent_prompts (snd (results_column pw model now True f w)) =
           sent_prompts w @
           [filled_prompt (form_name f) (form_age f) (form_gender f) (form_weight f)
              (form_height f) (form_veg_or_nonveg f) (str_or (form_disease f) ''None'')
              (str_or (form_region f) ''Not specified'') (str_or (form_state f) ''Not specified'')
              (str_or (form_allergics f) ''None'') (str_or (form_foodtype f) ''General'')] \<and>
         Markdown recommendations \<in> set (page (snd (results_column pw model now True f w)))"
proof -
  have omitted: "results_column pw model now True f w =
      (None,
       w2\<lparr>page := page w2 @
         [ResultsContainerOpen, Greeting (form_name f), TextContainerOpen,
          Markdown recommendations, DivClose, DivClose]\<rparr>)"
    if "isl (py_float (form_weight f)) \<or> isl (py_float (form_height f))"
    using assms calculate_bmi_unparsed [OF that]
    by (simp add: results_column_def bmi_panel_def bmi_visualization_def render_def)
  have sent: "sent_prompts (snd (results_column pw model now True f w)) =
      sent_prompts w @
      [filled_prompt (form_name f) (form_age f) (form_gender f) (form_weight f)
              (form_height f) (form_veg_or_nonveg f) (str_or (form_disease f) ''None'')
              (str_or (form_region f) ''Not specified'') (str_or (form_state f) ''Not specified'')
              (str_or (form_allergics f) ''None'') (str_or (form_foodtype f) ''General'')]"
    using results_column_valid [OF assms(1), of pw model now w]
      generate_recommendations_sent [OF format_input_data, of model f
        "capture_usage now (input_data f) w"]
    by (simp add: capture_usage_def)
  obtain bmi where bmi: "calculate_bmi pw (form_weight f) (form_height f) = Inr bmi"
    using calculate_bmi_returns by blast
  have "Markdown recommendations \<in> set (page (render
      ([ResultsContainerOpen, Greeting (form_name f)] @ bmi_panel bmi @
       [TextContainerOpen, Markdown recommendations, DivClose, DivClose]) w2))"
    by (simp add: render_def)
  then have shown: "Markdown recommendations \<in> set (page (snd (results_column pw model now True f w)))"
    using assms bmi bmi_visualization_keeps by (auto simp: results_column_def)
  show ?thesis
    using omitted sent shown by blast
qed

theorem recommendations_independent_of_bmi_witness:
  "required_present (sample_form\<lparr>form_weight := ''abc''\<rparr>) \<and>
   isl (py_float (form_weight (sample_form\<lparr>form_weight := ''abc''\<rparr>))) \<and>
   fst (generate_recommendations replying_model (input_data (sample_form\<lparr>form_weight := ''abc''\<rparr>))
     (capture_usage 0 (input_data (sample_form\<lparr>form_weight := ''abc''\<rparr>)) fresh_world)) =
     Inr ''## RESTAURANTS'' \<and>
   page (snd (results_column sample_pow replying_model 0 True (sample_form\<lparr>form_weight := ''abc''\<rparr>)
     fresh_world)) =
     [ResultsContainerOpen, Greeting ''Ann'', TextContainerOpen, Markdown ''## RESTAURANTS'',
      DivClose, DivClose]"
proof -
  let ?f = "sample_form\<lparr>form_weight := ''abc''\<rparr>"
  let ?w1 = "capture_usage 0 (input_data ?f) fresh_world"
  have req: "required_present ?f"
    by (simp add: required_present_def sample_form_def)
  have abc: "isl (py_float (form_weight ?f))"
    by (simp add: py_float_abc)
  have reply: "fst (generate_recommendations replying_model (input_data ?f) ?w1) =
      Inr ''## RESTAURANTS''"
    by (simp add: generate_recommendations_def format_input_data replying_model_def)
  then have gen: "generate_recommendations replying_model (input_data ?f) ?w1 =
      (Inr ''## RESTAURANTS'', snd (generate_recommendations replying_model (input_data ?f) ?w1))"
    by (simp add: prod_eq_iff)
  have page: "page (snd (generate_recommendations replying_model (input_data ?f) ?w1)) = []"
    by (simp add: generate_recommendations_def format_input_data capture_usage_def
        fresh_world_def)
  have name: "form_name ?f = ''Ann''"
    by (simp add: sample_form_def)
  have "results_column sample_pow replying_model 0 True ?f fresh_world =
      (None,
       (snd (generate_recommendations replying_model (input_data ?f) ?w1))
         \<lparr>page := page (snd (generate_recommendations replying_model (input_data ?f) ?w1)) @
           [ResultsContainerOpen, Greeting (form_name ?f), TextContainerOpen,
            Markdown ''## RESTAURANTS'', DivClose, DivClose]\<rparr>)"
    using recommendations_independent_of_bmi [OF req gen, where pw = sample_pow] abc by blast
  then have "page (snd (results_column sample_pow replying_model 0 True ?f fresh_world)) =
      [ResultsContainerOpen, Greeting ''Ann'', TextContainerOpen, Markdown ''## RESTAURANTS'',
       DivClose, DivClose]"
    by (simp add: page name)
  then show ?thesis
    using req abc reply by blast
qed

text \<open>
  C9, as the specification words it, fails: \<^verbatim>\<open>dict.get\<close> gives its default only for
  a missing key, so an empty age that is present is recorded as the empty string, not as
  \<^verbatim>\<open>"Unknown"\<close>.
\<close>

theorem capture_usage_blank_counterexample:
  "user_age (last (usage_data (capture_usage 0 [''age'' \<mapsto> [], ''region'' \<mapsto> []]
     \<lparr>usage_data = [], sent_prompts = [], page = []\<rparr>))) \<noteq> ''Unknown''"
  by (simp add: capture_usage_def dict_get_def)

text \<open>
  C9, amended: \<^verbatim>\<open>capture_usage\<close> appends exactly one record to the end of the usage
  log and changes nothing else; the record holds the clock reading, and for the age and
  the region the value under the key when the key is present (also when that value is
  empty), and \<^verbatim>\<open>"Unknown"\<close> when the key is missing. In the submit handler both keys
  are always present: the record holds the age of the form and its region, or
  \<^verbatim>\<open>"Not specified"\<close> when the region was left empty.
\<close>

theorem capture_usage_appends:
  "capture_usage now user_data w =
     w\<lparr>usage_data := usage_data w @
       [\<lparr>timestamp = now,
         user_age = (case user_data ''age'' of None \<Rightarrow> ''Unknown'' | Some a \<Rightarrow> a),
         user_region = (case user_data ''region'' of None \<Rightarrow> ''Unknown'' | Some r \<Rightarrow> r)\<rparr>]\<rparr> \<and>
   (required_present f \<longrightarrow>
      usage_data (snd (results_column pw model now True f w)) =
        usage_data w @
        [\<lparr>timestamp = now, user_age = form_age f,
          user_region = (if form_region f = [] then ''Not specified'' else form_region f)\<rparr>])"
proof -
  have "usage_data (snd (results_column pw model now True f w)) =
      usage_data w @
      [\<lparr>timestamp = now, user_age = form_age f,
        user_region = (if form_region f = [] then ''Not specified'' else form_region f)\<rparr>]"
    if "required_present f"
    using results_column_valid [OF that, of pw model now w]
    by (simp add: capture_usage_def dict_get_def input_data_def str_or_def)
  then show ?thesis
    by (simp add: capture_usage_def dict_get_def)
qed

theorem capture_usage_appends_witness:
  "required_present sample_form \<and>
   usage_data (snd (results_column sample_pow replying_model 7 True sample_form fresh_world)) =
     [\<lparr>timestamp = 7, user_age = ''30'', user_region = ''Not specified''\<rparr>]"
proof -
  have req: "required_present sample_form"
    by (simp add: required_present_def sample_form_def)
  show ?thesis
    using capture_usage_appends [where now = 7 and w = fresh_world and f = sample_form
        and model = replying_model and pw = sample_pow] req
    by (simp add: sample_form_def fresh_world_def)
qed

end
